theory Spec2Isabelle
  imports Main
begin

section \<open>Text helpers shared by the three adapters\<close>

text \<open>
  A \<open>string\<close> is a list of 8-bit characters; it stands for a Python \<open>str\<close> whose code
  points lie in the range 0..255.
\<close>

definition digit_char :: "nat \<Rightarrow> char" where
  "digit_char d = char_of (48 + d)"

text \<open>Decimal rendering of a counter value, as Python's \<open>f"{n}"\<close> does for an int.\<close>

function str_of_nat :: "nat \<Rightarrow> string" where
  "str_of_nat n = (if n < 10 then [digit_char n] else str_of_nat (n div 10) @ [digit_char (n mod 10)])"
  by pat_completeness auto
termination
  by (relation "measure id") auto

declare str_of_nat.simps [simp del]

text \<open>Python's \<open>sep.join(xs)\<close>.\<close>

fun join :: "string \<Rightarrow> string list \<Rightarrow> string" where
  "join sep [] = []"
| "join sep [x] = x"
| "join sep (x # y # ys) = x @ sep @ join sep (y # ys)"

definition newline :: string where
  "newline = [CHR 0x0A]"

text \<open>Python's \<open>s.startswith(p)\<close>.\<close>

fun startswith :: "string \<Rightarrow> string \<Rightarrow> bool" where
  "startswith s [] = True"
| "startswith [] (p # ps) = False"
| "startswith (c # cs) (p # ps) = (c = p \<and> startswith cs ps)"

text \<open>Python's \<open>s.replace(old, new)\<close>: non-overlapping occurrences, left to right.\<close>

fun replace :: "string \<Rightarrow> string \<Rightarrow> string \<Rightarrow> string" where
  "replace old new [] = (if old = [] then new else [])"
| "replace old new (c # cs) =
     (if startswith (c # cs) old then new @ replace old new (drop (length old - 1) cs)
      else c # replace old new cs)"

text \<open>Python's \<open>sub in s\<close> on strings.\<close>

fun contains :: "string \<Rightarrow> string \<Rightarrow> bool" where
  "contains [] sub = (sub = [])"
| "contains (c # cs) sub = (startswith (c # cs) sub \<or> contains cs sub)"

text \<open>
  \<open>str.isspace\<close> on the code points 0..255: tab, LF, VT, FF, CR, the separators
  0x1c..0x1f, space, NEL (0x85) and the no-break space (0xa0).
\<close>

definition isspace :: "char \<Rightarrow> bool" where
  "isspace c = (of_char c \<in> {9::nat, 10, 11, 12, 13, 28, 29, 30, 31, 32, 133, 160})"

definition lstrip :: "string \<Rightarrow> string" where
  "lstrip s = dropWhile isspace s"

definition rstrip :: "string \<Rightarrow> string" where
  "rstrip s = rev (dropWhile isspace (rev s))"

definition strip :: "string \<Rightarrow> string" where
  "strip s = rstrip (lstrip s)"

text \<open>
  The line boundaries of \<open>str.splitlines\<close> on the code points 0..255:
  LF, VT, FF, CR, 0x1c, 0x1d, 0x1e and NEL.
\<close>

definition islinebreak :: "char \<Rightarrow> bool" where
  "islinebreak c = (of_char c \<in> {10::nat, 11, 12, 13, 28, 29, 30, 133})"

text \<open>
  \<open>s.splitlines()[0]\<close>: the text before the first line boundary; on the empty string
  \<open>splitlines\<close> returns the empty list and the index raises, which is \<open>None\<close> here.
\<close>

definition first_line :: "string \<Rightarrow> string option" where
  "first_line s = (if s = [] then None else Some (takeWhile (\<lambda>c. \<not> islinebreak c) s))"

text \<open>\<open>html.escape(s, quote)\<close>: ampersand first, then the angle brackets, then the quotes.\<close>

definition html_escape :: "bool \<Rightarrow> string \<Rightarrow> string" where
  "html_escape quote s =
     (let s1 = replace ''&'' ''&amp;'' s;
          s2 = replace ''<'' ''&lt;'' s1;
          s3 = replace ''>'' ''&gt;'' s2
      in if quote then replace [CHR 0x27] ''&#x27;'' (replace [CHR 0x22] ''&quot;'' s3) else s3)"

section \<open>The diagram under construction\<close>

text \<open>
  Node identifiers are the two terminals and the numbered nodes. Every adapter appends
  lines to a buffer; a line is kept in structured form and turned into text when the
  buffer is joined, so that the graph can be read back from what was emitted:
  \<open>Text\<close> is a literal line, \<open>Decl i sh\<close> is the node declaration \<open>i\<close> followed by its
  shape text, and \<open>Edge a l b sh\<close> is an edge from \<open>a\<close> to \<open>b\<close> with optional label \<open>l\<close>,
  where \<open>sh\<close> is the shape text written after the target on the same line (empty when
  the line is a bare edge).
\<close>

datatype node_id = Start | End | N nat

datatype line =
    Text string
  | Decl node_id string
  | Edge node_id "string option" node_id string

record rstate =
  counter :: nat
  lines :: "line list"

definition emit :: "line \<Rightarrow> rstate \<Rightarrow> rstate" where
  "emit l s = s\<lparr>lines := lines s @ [l]\<rparr>"

section \<open>python\_parser.py\<close>

subsection \<open>The syntax tree handed over by \<open>ast.parse\<close>\<close>

text \<open>
  \<open>ast.parse\<close> and \<open>ast.unparse\<close> belong to the Python standard library. The result of
  \<open>ast.parse\<close> is the input of the model: either the message of the \<open>SyntaxError\<close> it
  raised or the statement list \<open>tree.body\<close>. Only the node shapes that the renderer
  inspects are told apart; \<open>Other\<close> carries the class name of any other statement.

  Every expression node carries, as its first field, the text that \<open>ast.unparse\<close> returns
  for it. Every statement node carries, as its first field, the outcome of \<open>ast.unparse\<close>
  on the statement: \<open>Some\<close> text, or \<open>None\<close> when the call raises (as it does with
  \<open>RecursionError\<close> on a deeply nested statement). The targets of an assignment are kept
  as the outcomes of \<open>ast.unparse\<close> on each of them, which is all the renderer uses.
\<close>

datatype expr =
    Constant_str string string
  | Name string string
  | Call string expr "expr list"
  | Other_expr string

fun unparse_expr :: "expr \<Rightarrow> string" where
  "unparse_expr (Constant_str u v) = u"
| "unparse_expr (Name u i) = u"
| "unparse_expr (Call u f args) = u"
| "unparse_expr (Other_expr u) = u"

datatype stmt =
    Expr "string option" expr
  | Assign "string option" "string option list" expr
  | If "string option" expr "stmt list" "stmt list"
  | For "string option" expr expr "stmt list"
  | While "string option" expr "stmt list"
  | Match "string option" expr "(string option \<times> stmt list) list"
  | Other "string option" string

fun unparse :: "stmt \<Rightarrow> string option" where
  "unparse (Expr u v) = u"
| "unparse (Assign u ts v) = u"
| "unparse (If u t b e) = u"
| "unparse (For u t i b) = u"
| "unparse (While u t b) = u"
| "unparse (Match u e cs) = u"
| "unparse (Other u tn) = u"

text \<open>\<open>type(node).__name__\<close>.\<close>

fun type_name :: "stmt \<Rightarrow> string" where
  "type_name (Expr u v) = ''Expr''"
| "type_name (Assign u ts v) = ''Assign''"
| "type_name (If u t b e) = ''If''"
| "type_name (For u t i b) = ''For''"
| "type_name (While u t b) = ''While''"
| "type_name (Match u e cs) = ''Match''"
| "type_name (Other u tn) = tn"

datatype parse_result = SyntaxError string | Module "stmt list"

subsection \<open>Labels\<close>

definition safe_label :: "string \<Rightarrow> string" where
  "safe_label text =
     replace ''&#x27;'' [CHR 0x27]
       (replace ''&quot;'' [CHR 0x22]
         (replace [CHR 0x0A] '' '' (html_escape False text)))"

text \<open>The three shape templates of \<open>handle_expr\<close>, applied with \<open>str.format\<close>.\<close>

definition parallelogram :: "string \<Rightarrow> string" where
  "parallelogram l = ''[/'' @ [CHR 0x22] @ l @ [CHR 0x22] @ ''/]''"

definition rectangle :: "string \<Rightarrow> string" where
  "rectangle l = ''['' @ [CHR 0x22] @ l @ [CHR 0x22] @ '']''"

definition diamond :: "string \<Rightarrow> string" where
  "diamond l = ''{'' @ [CHR 0x22] @ l @ [CHR 0x22] @ ''}''"

text \<open>
  \<open>ast.unparse(node).strip().splitlines()[0]\<close>, cut to 47 characters and an ellipsis
  when longer than 50. \<open>None\<close> is an exception: the one \<open>ast.unparse\<close> raised, or the
  \<open>IndexError\<close> of the index on an empty list.
\<close>

definition generic_label :: "stmt \<Rightarrow> string option" where
  "generic_label node =
     (case unparse node of
        None \<Rightarrow> None
      | Some text \<Rightarrow>
          (case first_line (strip text) of
             None \<Rightarrow> None
           | Some l \<Rightarrow> Some (if length l > 50 then take 47 l @ ''...'' else l)))"

text \<open>The prompt of a direct \<open>input("...")\<close> call with one string-constant argument.\<close>

fun direct_input :: "expr \<Rightarrow> string option" where
  "direct_input (Call u (Name fu f) [Constant_str cu v]) = (if f = ''input'' then Some v else None)"
| "direct_input e = None"

text \<open>
  The prompt and the conversion function of \<open>conv(input("..."))\<close>; tried only when the
  right-hand side is not a direct \<open>input\<close> call.
\<close>

fun wrapped_input :: "expr \<Rightarrow> (string \<times> string) option" where
  "wrapped_input (Call u (Name fu f) [Call u2 (Name gu g) [Constant_str cu v]]) =
     (if g = ''input'' then Some (v, f) else None)"
| "wrapped_input e = None"

text \<open>
  \<open>ast.unparse(node.targets[0]).strip() if node.targets else "value"\<close>; \<open>None\<close> when the
  call raises.
\<close>

definition target_name :: "string option list \<Rightarrow> string option" where
  "target_name targets =
     (case targets of
        [] \<Rightarrow> Some ''value''
      | t # ts \<Rightarrow> (case t of None \<Rightarrow> None | Some text \<Rightarrow> Some (strip text)))"

datatype shape_type = Parallelogram | Rectangle

text \<open>
  The \<open>try\<close> block of \<open>handle_expr\<close>: the label text and the shape template, or \<open>None\<close>
  when an exception is raised inside the block. The cases are the source's, in its order:
  a \<open>print\<close> of one string constant, an assignment (from \<open>input\<close> or not), another call
  expression, and any other statement.
\<close>

fun try_block :: "stmt \<Rightarrow> (string \<times> shape_type) option" where
  "try_block (Expr u (Call cu (Name fu f) [Constant_str au content])) =
     (if f = ''print'' then Some (''Output: '' @ content, Parallelogram)
      else (case generic_label (Expr u (Call cu (Name fu f) [Constant_str au content])) of
              None \<Rightarrow> None
            | Some l \<Rightarrow> Some (l, Parallelogram)))"
| "try_block (Assign u targets rhs) =
     (let input_call =
            (case direct_input rhs of
               Some prompt \<Rightarrow> Some (prompt, [])
             | None \<Rightarrow> wrapped_input rhs)
      in case input_call of
           Some (input_prompt, conversion_func) \<Rightarrow>
             (case target_name targets of
                None \<Rightarrow> None
              | Some tn \<Rightarrow>
                  (if conversion_func \<noteq> [] then
                     Some (''Input '' @ tn @ '': '' @ input_prompt @ '' (as '' @ conversion_func @ '')'',
                           Parallelogram)
                   else Some (''Input '' @ tn @ '': '' @ input_prompt, Parallelogram)))
         | None \<Rightarrow>
             (case generic_label (Assign u targets rhs) of
                None \<Rightarrow> None
              | Some l \<Rightarrow> Some (l, Rectangle)))"
| "try_block (Expr u (Call cu f args)) =
     (case generic_label (Expr u (Call cu f args)) of
        None \<Rightarrow> None
      | Some l \<Rightarrow> Some (l, Parallelogram))"
| "try_block node =
     (case generic_label node of
        None \<Rightarrow> None
      | Some l \<Rightarrow> Some (l, Rectangle))"

text \<open>
  \<open>handle_expr\<close>: the shape text of one statement. The \<open>except Exception\<close> branch takes
  the class name of the node as the label and the rectangle as the shape.
\<close>

definition handle_expr :: "stmt \<Rightarrow> string" where
  "handle_expr node =
     (case try_block node of
        None \<Rightarrow> rectangle (safe_label (type_name node))
      | Some (label_text, Parallelogram) \<Rightarrow> parallelogram (safe_label label_text)
      | Some (label_text, Rectangle) \<Rightarrow> rectangle (safe_label label_text))"

subsection \<open>The renderer\<close>

definition get_id :: "rstate \<Rightarrow> node_id \<times> rstate" where
  "get_id s = (N (Suc (counter s)), s\<lparr>counter := Suc (counter s)\<rparr>)"

text \<open>
  The body loops of the renderer all have one shape: a fresh id per statement, one line
  carrying the edge from the previous node together with the declaration of the new
  node, and the new node becomes the previous one. \<open>lbl\<close> is the edge label the loop
  writes on every one of its lines.
\<close>

fun body_chain :: "string option \<Rightarrow> node_id \<Rightarrow> stmt list \<Rightarrow> rstate \<Rightarrow> node_id \<times> rstate" where
  "body_chain lbl prev [] s = (prev, s)"
| "body_chain lbl prev (x # xs) s =
     (let (sid, s1) = get_id s;
          s2 = emit (Edge prev lbl sid (handle_expr x)) s1
      in body_chain lbl sid xs s2)"

text \<open>\<open>for branch_end in branch_ends: lines.append(f"{branch_end} --> {target}")\<close>.\<close>

fun connect_all :: "node_id list \<Rightarrow> node_id \<Rightarrow> rstate \<Rightarrow> rstate" where
  "connect_all [] target s = s"
| "connect_all (b # bs) target s = connect_all bs target (emit (Edge b None target []) s)"

text \<open>
  \<open>handle_if_elif_else\<close>. It is called on \<open>If\<close> nodes only; on any other node the model
  returns its arguments unchanged. The \<open>orelse\<close> list that holds exactly one \<open>If\<close> is an
  \<open>elif\<close> and is rendered by the recursive call, whose result joins the branch ends.
\<close>

fun handle_if_elif_else :: "stmt \<Rightarrow> node_id \<Rightarrow> bool \<Rightarrow> rstate \<Rightarrow> node_id \<times> rstate" where
  "handle_if_elif_else (If u test body orelse) current_last_node is_last s =
     (let (cond_id, s1) = get_id s;
          s2 = emit (Decl cond_id (diamond (safe_label (strip (unparse_expr test))))) s1;
          s3 = emit (Edge current_last_node None cond_id []) s2;
          (yes_last, s4) =
            (if body \<noteq> [] then body_chain (Some ''Yes'') cond_id body s3
             else (let (yes_id, t1) = get_id s3
                   in (yes_id, emit (Edge cond_id (Some ''Yes'') yes_id ''[[No action]]'') t1)));
          (no_end, s5) =
            (case orelse of
               [] \<Rightarrow> (let (no_id, t1) = get_id s4
                      in (no_id, emit (Edge cond_id (Some ''No'') no_id ''[[No action]]'') t1))
             | [If u2 test2 body2 orelse2] \<Rightarrow>
                 handle_if_elif_else (If u2 test2 body2 orelse2) cond_id is_last s4
             | _ \<Rightarrow> body_chain (Some ''No'') cond_id orelse s4);
          branch_ends = [yes_last, no_end]
      in if is_last then (End, connect_all branch_ends End s5)
         else (let (merge_id, s6) = get_id s5
               in (merge_id, connect_all branch_ends merge_id s6)))"
| "handle_if_elif_else node current_last_node is_last s = (current_last_node, s)"

text \<open>\<open>handle_loop\<close>, called on \<open>For\<close> and \<open>While\<close> nodes only.\<close>

fun loop_cond_label :: "stmt \<Rightarrow> string" where
  "loop_cond_label (For u target iter body) =
     ''For '' @ strip (unparse_expr target) @ '' in '' @ strip (unparse_expr iter)"
| "loop_cond_label (While u test body) = strip (unparse_expr test)"
| "loop_cond_label node = []"

fun loop_body :: "stmt \<Rightarrow> stmt list" where
  "loop_body (For u target iter body) = body"
| "loop_body (While u test body) = body"
| "loop_body node = []"

definition handle_loop :: "stmt \<Rightarrow> node_id \<Rightarrow> bool \<Rightarrow> rstate \<Rightarrow> node_id \<times> rstate" where
  "handle_loop loop_node current_last_node is_last s =
     (let (loop_condition_id, s1) = get_id s;
          s2 = emit (Decl loop_condition_id (diamond (safe_label (loop_cond_label loop_node)))) s1;
          s3 = emit (Edge current_last_node None loop_condition_id []) s2;
          (loop_body_last, s4) =
            (case loop_body loop_node of
               first_stmt_in_body # rest \<Rightarrow>
                 (let (first_body_node_id, t1) = get_id s3;
                      t2 = emit (Edge loop_condition_id (Some ''Yes'') first_body_node_id
                                   (handle_expr first_stmt_in_body)) t1
                  in body_chain None first_body_node_id rest t2)
             | [] \<Rightarrow>
                 (let (empty_body_id, t1) = get_id s3
                  in (empty_body_id,
                      emit (Edge loop_condition_id (Some ''Yes'') empty_body_id ''[[Empty Loop Body]]'') t1)));
          s5 = emit (Edge loop_body_last None loop_condition_id []) s4;
          (loop_exit_node_id, s6) = get_id s5;
          s7 = emit (Edge loop_condition_id (Some ''No'') loop_exit_node_id []) s6
      in if is_last then (End, emit (Edge loop_exit_node_id None End []) s7)
         else (loop_exit_node_id, s7))"

text \<open>The \<open>ast.Match\<close> branch of the main loop: one sub-chain per case.\<close>

fun match_cases :: "node_id \<Rightarrow> (string option \<times> stmt list) list \<Rightarrow> rstate \<Rightarrow> node_id list \<times> rstate" where
  "match_cases match_id [] s = ([], s)"
| "match_cases match_id ((pattern, body) # cases) s =
     (let case_lbl = (case pattern of
                        Some p \<Rightarrow> safe_label (''case '' @ strip p)
                      | None \<Rightarrow> ''case (default)'');
          (case_branch_last, s1) =
            (case body of
               first_stmt # rest \<Rightarrow>
                 (let (first_case_id, t1) = get_id s;
                      t2 = emit (Edge match_id (Some case_lbl) first_case_id (handle_expr first_stmt)) t1
                  in body_chain None first_case_id rest t2)
             | [] \<Rightarrow>
                 (let (empty_case_id, t1) = get_id s
                  in (empty_case_id,
                      emit (Edge match_id (Some case_lbl) empty_case_id ''[[No action]]'') t1)));
          (ends, s2) = match_cases match_id cases s1
      in (case_branch_last # ends, s2))"

definition handle_match :: "stmt \<Rightarrow> node_id \<Rightarrow> bool \<Rightarrow> rstate \<Rightarrow> node_id \<times> rstate" where
  "handle_match node lastn is_last s =
     (case node of
        Match u subject cases \<Rightarrow>
          (let (match_id, s1) = get_id s;
               s2 = emit (Decl match_id (diamond (''Match '' @ safe_label (strip (unparse_expr subject))))) s1;
               s3 = emit (Edge lastn None match_id []) s2;
               (branch_ends, s4) = match_cases match_id cases s3
           in if is_last then (End, connect_all branch_ends End s4)
              else (let (match_merge_id, s5) = get_id s4
                    in (match_merge_id, connect_all branch_ends match_merge_id s5)))
      | _ \<Rightarrow> (lastn, s))"

text \<open>A plain statement of the main loop: declaration line, then the edge line.\<close>

definition plain_stmt :: "stmt \<Rightarrow> node_id \<Rightarrow> rstate \<Rightarrow> node_id \<times> rstate" where
  "plain_stmt node lastn s =
     (let (nid, s1) = get_id s;
          s2 = emit (Decl nid (handle_expr node)) s1;
          s3 = emit (Edge lastn None nid []) s2
      in (nid, s3))"

text \<open>One iteration of \<open>for i, node in enumerate(tree.body)\<close>; the case order is the source's.\<close>

fun top_stmt :: "stmt \<Rightarrow> node_id \<Rightarrow> bool \<Rightarrow> rstate \<Rightarrow> node_id \<times> rstate" where
  "top_stmt (Assign u ts v) lastn is_last s = plain_stmt (Assign u ts v) lastn s"
| "top_stmt (Expr u (Call cu f args)) lastn is_last s = plain_stmt (Expr u (Call cu f args)) lastn s"
| "top_stmt (If u t b e) lastn is_last s = handle_if_elif_else (If u t b e) lastn is_last s"
| "top_stmt (Match u e cs) lastn is_last s = handle_match (Match u e cs) lastn is_last s"
| "top_stmt (For u t i b) lastn is_last s = handle_loop (For u t i b) lastn is_last s"
| "top_stmt (While u t b) lastn is_last s = handle_loop (While u t b) lastn is_last s"
| "top_stmt node lastn is_last s = plain_stmt node lastn s"

fun main_loop :: "stmt list \<Rightarrow> node_id \<Rightarrow> rstate \<Rightarrow> node_id \<times> rstate" where
  "main_loop [] lastn s = (lastn, s)"
| "main_loop (node # rest) lastn s =
     (let (lastn', s') = top_stmt node lastn (rest = []) s in main_loop rest lastn' s')"

text \<open>Lines as text, in the notation of the Python adapter.\<close>

fun py_id :: "node_id \<Rightarrow> string" where
  "py_id Start = ''Start''"
| "py_id End = ''End''"
| "py_id (N k) = ''n'' @ str_of_nat k"

fun py_line :: "line \<Rightarrow> string" where
  "py_line (Text t) = t"
| "py_line (Decl i sh) = py_id i @ sh"
| "py_line (Edge a None b sh) = py_id a @ '' --> '' @ py_id b @ sh"
| "py_line (Edge a (Some l) b sh) = py_id a @ '' -- '' @ l @ '' --> '' @ py_id b @ sh"

text \<open>
  The buffer that \<open>code_to_flowchart\<close> joins, from a given start value of the counter
  (the source starts every call at 0).
\<close>

definition py_lines_from :: "nat \<Rightarrow> stmt list \<Rightarrow> line list" where
  "py_lines_from k body =
     (let s0 = \<lparr>counter = k, lines = [Text ''graph TD'', Text ''Start((Start))'']\<rparr>;
          (lastn, s1) = main_loop body Start s0;
          s2 = (if lastn \<noteq> End then emit (Edge lastn None End ''((End))'') s1 else s1)
      in lines (emit (Text ''End((End))'') s2))"

definition py_lines :: "stmt list \<Rightarrow> line list" where
  "py_lines body = py_lines_from 0 body"

definition py_code_to_flowchart :: "parse_result \<Rightarrow> string" where
  "py_code_to_flowchart r =
     (case r of
        SyntaxError e \<Rightarrow>
          ''graph TD'' @ newline @ ''Start((Start))'' @ newline @
          ''error['' @ [CHR 0x22] @ ''Error: '' @ html_escape True e @ [CHR 0x22] @
          ''] --> End((End))'' @ newline
      | Module body \<Rightarrow> join newline (map py_line (py_lines body)))"

section \<open>c\_parser.py\<close>

subsection \<open>The node list built by \<open>_parse_block\<close>\<close>

text \<open>
  \<open>_parse_block\<close> returns a list of tuples: \<open>('stmt', text)\<close>, \<open>('if', cond, then, else)\<close>
  with \<open>else\<close> possibly \<open>None\<close>, \<open>('for', header, body)\<close>, \<open>('while', cond, body)\<close>,
  \<open>('do', cond, body)\<close> and \<open>('switch', expr, cases)\<close>.
\<close>

datatype c_node =
    C_stmt string
  | C_if string "c_node list" "c_node list option"
  | C_for string "c_node list"
  | C_while string "c_node list"
  | C_do string "c_node list"
  | C_switch string "(string \<times> c_node list) list"

datatype kind = Io | Proc | Decision

subsection \<open>The regular expressions of the statement classifier\<close>

text \<open>
  \<open>str.isalnum\<close> on the code points 0..255; together with the underscore these are
  the word characters of \<open>\b\<close>.
\<close>

definition isalnum :: "char \<Rightarrow> bool" where
  "isalnum c =
     (let n = (of_char c :: nat) in
        (48 \<le> n \<and> n \<le> 57) \<or> (65 \<le> n \<and> n \<le> 90) \<or> (97 \<le> n \<and> n \<le> 122) \<or>
        n \<in> {170, 178, 179, 181, 185, 186, 188, 189, 190} \<or>
        (192 \<le> n \<and> n \<le> 214) \<or> (216 \<le> n \<and> n \<le> 246) \<or> (248 \<le> n \<and> n \<le> 255))"

definition isword :: "char \<Rightarrow> bool" where
  "isword c = (isalnum c \<or> c = CHR ''_'')"

text \<open>
  \<open>printf\s*\(\s*"([^"]*)"\<close> matched at the start of the text: the captured group.
  The greedy \<open>\s*\<close> never has to give characters back, since the character that
  follows it in the pattern is not white space.
\<close>

definition printf_at :: "string \<Rightarrow> string option" where
  "printf_at t =
     (if startswith t ''printf'' then
        (case dropWhile isspace (drop 6 t) of
           c # r2 \<Rightarrow>
             (if c = CHR ''('' then
                (case dropWhile isspace r2 of
                   q # r4 \<Rightarrow> (if q = CHR 0x22 \<and> CHR 0x22 \<in> set r4
                              then Some (takeWhile (\<lambda>x. x \<noteq> CHR 0x22) r4) else None)
                 | [] \<Rightarrow> None)
              else None)
         | [] \<Rightarrow> None)
      else None)"

text \<open>\<open>re.search\<close>: the match at the leftmost position that has one.\<close>

fun re_search :: "(string \<Rightarrow> 'a option) \<Rightarrow> string \<Rightarrow> 'a option" where
  "re_search at [] = at []"
| "re_search at (c # cs) = (case at (c # cs) of Some g \<Rightarrow> Some g | None \<Rightarrow> re_search at cs)"

text \<open>
  \<open>(.+)\)\<close> at the start of the text: the dot does not match a line feed, so the group
  lies within the first line; being greedy it ends at the last closing parenthesis of
  that line that has at least one character before it.
\<close>

definition dot_plus_paren :: "string \<Rightarrow> string option" where
  "dot_plus_paren t =
     (let ln = takeWhile (\<lambda>x. x \<noteq> CHR 0x0A) t;
          ms = filter (\<lambda>m. 1 \<le> m \<and> ln ! m = CHR '')'') [0..<length ln]
      in if ms = [] then None else Some (take (last ms) ln))"

text \<open>
  \<open>\s*(.+)\)\<close>: the greedy \<open>\s*\<close> first takes all \<open>k\<close> leading white-space characters
  and gives them back one at a time while the rest of the pattern fails.
\<close>

fun ws_then_group :: "nat \<Rightarrow> string \<Rightarrow> string option" where
  "ws_then_group 0 t = dot_plus_paren t"
| "ws_then_group (Suc k) t =
     (case dot_plus_paren (drop (Suc k) t) of Some g \<Rightarrow> Some g | None \<Rightarrow> ws_then_group k t)"

text \<open>\<open>scanf\s*\([^,]+,\s*(.+)\)\<close> matched at the start of the text.\<close>

definition scanf_at :: "string \<Rightarrow> string option" where
  "scanf_at t =
     (if startswith t ''scanf'' then
        (case dropWhile isspace (drop 5 t) of
           c # r2 \<Rightarrow>
             (if c = CHR ''('' then
                (let a = takeWhile (\<lambda>x. x \<noteq> CHR '','') r2 in
                 case drop (length a) r2 of
                   comma # r3 \<Rightarrow>
                     (if a \<noteq> [] then ws_then_group (length (takeWhile isspace r3)) r3 else None)
                 | [] \<Rightarrow> None)
              else None)
         | [] \<Rightarrow> None)
      else None)"

text \<open>
  \<open>(?:short|long|int|char|float|double|size_t)\b\<close> at the start of the text: the text
  after the keyword, which must not continue with a word character.
\<close>

fun type_keyword :: "string list \<Rightarrow> string \<Rightarrow> string option" where
  "type_keyword [] t = None"
| "type_keyword (kw # kws) t =
     (let r = drop (length kw) t in
      if startswith t kw \<and> (r = [] \<or> \<not> isword (hd r)) then Some r
      else type_keyword kws t)"

definition type_keywords :: "string list" where
  "type_keywords = [''short'', ''long'', ''int'', ''char'', ''float'', ''double'', ''size_t'']"

text \<open>\<open>unsigned\s+\<close> or \<open>signed\s+\<close> at the start of the text: what follows the white space.\<close>

definition sign_prefix :: "string \<Rightarrow> string option" where
  "sign_prefix t =
     (let after = (if startswith t ''unsigned'' then Some (drop 8 t)
                   else if startswith t ''signed'' then Some (drop 6 t) else None)
      in case after of
           Some (c # r) \<Rightarrow> (if isspace c then Some (dropWhile isspace r) else None)
         | _ \<Rightarrow> None)"

text \<open>
  \<open>^(?:unsigned\s+|signed\s+)?\s*(?:short|...|size_t)\b\<close> with \<open>re.match\<close>: the text
  after the keyword. The optional prefix is tried first and dropped when the rest of
  the pattern fails behind it.
\<close>

definition decl_match :: "string \<Rightarrow> string option" where
  "decl_match t =
     (let with_prefix = (case sign_prefix t of
                           Some r \<Rightarrow> type_keyword type_keywords r
                         | None \<Rightarrow> None)
      in case with_prefix of
           Some r \<Rightarrow> Some r
         | None \<Rightarrow> type_keyword type_keywords (dropWhile isspace t))"

text \<open>
  \<open>(.*)$\<close> behind the keyword: the group is the rest of the first line, and the line
  must be the last one (a single final line feed is allowed after it).
\<close>

definition dot_star_dollar :: "string \<Rightarrow> string option" where
  "dot_star_dollar r =
     (let ln = takeWhile (\<lambda>x. x \<noteq> CHR 0x0A) r;
          rem = drop (length ln) r
      in if rem = [] \<or> rem = [CHR 0x0A] then Some ln else None)"

text \<open>Python's \<open>s.split(sep)\<close> for a one-character separator.\<close>

fun split_on :: "char \<Rightarrow> string \<Rightarrow> string list" where
  "split_on sep [] = [[]]"
| "split_on sep (c # cs) =
     (case split_on sep cs of
        [] \<Rightarrow> (if c = sep then [[], []] else [[c]])
      | p # ps \<Rightarrow> (if c = sep then [] # p # ps else (c # p) # ps))"

text \<open>
  \<open>re.sub(r'\[.*\]', '', p)\<close> on a text without line feeds: the span from the first
  opening bracket to the last closing bracket behind it is removed.
\<close>

definition sub_brackets :: "string \<Rightarrow> string" where
  "sub_brackets p =
     (let pre = takeWhile (\<lambda>x. x \<noteq> CHR ''['') p;
          rest = drop (length pre) p
      in if rest \<noteq> [] \<and> CHR '']'' \<in> set (tl rest)
         then pre @ rev (takeWhile (\<lambda>x. x \<noteq> CHR '']'') (rev rest))
         else p)"

text \<open>\<open>s.rstrip(';')\<close>.\<close>

definition rstrip_semi :: "string \<Rightarrow> string" where
  "rstrip_semi s = rev (dropWhile (\<lambda>x. x = CHR '';'') (rev s))"

text \<open>\<open>p.split()[-1]\<close> on a text that holds a word: its last white-space separated word.\<close>

definition last_word :: "string \<Rightarrow> string" where
  "last_word p = rev (takeWhile (\<lambda>x. \<not> isspace x) (dropWhile isspace (rev p)))"

text \<open>The name declared by one comma-separated part, if any text is left of it.\<close>

definition var_name :: "string \<Rightarrow> string option" where
  "var_name part =
     (let p1 = strip (hd (split_on (CHR ''='') part));
          p2 = strip (replace ''*'' '' '' p1);
          p3 = strip (sub_brackets p2)
      in if p3 \<noteq> [] then Some (last_word p3) else None)"

definition extract_var_names :: "string \<Rightarrow> string list" where
  "extract_var_names decl0 =
     (let decl = rstrip_semi (strip decl0);
          grp = (case sign_prefix decl of
                   Some r \<Rightarrow> (case type_keyword type_keywords r of
                                Some r2 \<Rightarrow> dot_star_dollar r2 | None \<Rightarrow> None)
                 | None \<Rightarrow> None);
          grp2 = (case grp of
                    Some g \<Rightarrow> Some g
                  | None \<Rightarrow> (case type_keyword type_keywords (dropWhile isspace decl) of
                               Some r2 \<Rightarrow> dot_star_dollar r2 | None \<Rightarrow> None))
      in case grp2 of
           None \<Rightarrow> []
         | Some g \<Rightarrow>
             (let parts = filter (\<lambda>p. p \<noteq> []) (map strip (split_on (CHR '','') (strip g)))
              in List.map_filter var_name parts))"

subsection \<open>Labels\<close>

text \<open>\<open>node[1].strip() if node[1] else default\<close>.\<close>

definition strip_or :: "string \<Rightarrow> string \<Rightarrow> string" where
  "strip_or t dflt = (if t \<noteq> [] then strip t else dflt)"

fun label_and_kind :: "c_node \<Rightarrow> string \<times> kind" where
  "label_and_kind (C_stmt text) =
     (let s = strip text in
      if startswith s ''printf'' then
        (case re_search printf_at s of
           Some g \<Rightarrow> (''Display '' @ g, Io)
         | None \<Rightarrow> (''Output'', Io))
      else if startswith s ''scanf'' then
        (case re_search scanf_at s of
           Some g \<Rightarrow> (''Input '' @ strip (replace ''&'' [] (strip g)), Io)
         | None \<Rightarrow> (''Input'', Io))
      else if decl_match s \<noteq> None then
        (case extract_var_names s of
           [] \<Rightarrow> (''Declare variable'', Proc)
         | [n] \<Rightarrow> (''Declare variable '' @ n, Proc)
         | names \<Rightarrow> (''Declare variables '' @ join '', '' names, Proc))
      else if startswith s ''return'' then (''Return'', Proc)
      else (strip (rstrip_semi s), Proc))"
| "label_and_kind (C_if cond t e) = (strip_or cond ''Condition'', Decision)"
| "label_and_kind (C_while cond b) = (strip_or cond ''Condition'', Decision)"
| "label_and_kind (C_for hdr b) = (strip_or hdr ''For'', Decision)"
| "label_and_kind (C_do cond b) = (strip_or cond ''Condition'', Decision)"
| "label_and_kind (C_switch e cs) = (strip_or e ''Switch'', Decision)"

text \<open>\<open>re.sub(r'\s+', ' ', s)\<close>: every run of white space becomes one space.\<close>

function collapse_ws :: "string \<Rightarrow> string" where
  "collapse_ws [] = []"
| "collapse_ws (c # cs) =
     (if isspace c then CHR '' '' # collapse_ws (dropWhile isspace cs)
      else c # collapse_ws cs)"
  by pat_completeness auto
termination
  by (relation "measure length") (auto simp: le_imp_less_Suc length_dropWhile_le)

definition clean_label :: "string \<Rightarrow> string" where
  "clean_label s0 =
     (let s1 = replace [CHR 0x27] [] (replace [CHR 0x22] [] s0);
          s2 = strip s1;
          s3 = collapse_ws s2
      in html_escape False s3)"

subsection \<open>The renderer\<close>

text \<open>
  The text-level front end (\<open>_remove_comments_and_preproc\<close>, the search for the body of
  \<open>main\<close> and \<open>_parse_block\<close>) produces the node list; the renderer below is the rest of
  \<open>code_to_flowchart\<close>, from \<open>lines = ["graph TD"]\<close> on.
\<close>

definition new_id :: "rstate \<Rightarrow> node_id \<times> rstate" where
  "new_id s = (N (Suc (counter s)), s\<lparr>counter := Suc (counter s)\<rparr>)"

definition add_node :: "string \<Rightarrow> kind \<Rightarrow> rstate \<Rightarrow> node_id \<times> rstate" where
  "add_node label k s =
     (let (nid, s1) = new_id s;
          safe = clean_label label
      in (nid, emit (Decl nid (case k of
                                 Io \<Rightarrow> parallelogram safe
                               | Decision \<Rightarrow> diamond safe
                               | Proc \<Rightarrow> rectangle safe)) s1))"

text \<open>\<open>connect\<close>: an empty label is falsy and gives the unlabelled edge.\<close>

definition connect :: "node_id \<Rightarrow> node_id \<Rightarrow> string option \<Rightarrow> rstate \<Rightarrow> rstate" where
  "connect a b edge_label s =
     (case edge_label of
        Some l \<Rightarrow> (if l \<noteq> [] then emit (Edge a (Some l) b []) s else emit (Edge a None b []) s)
      | None \<Rightarrow> emit (Edge a None b []) s)"

text \<open>\<open>'io' if t == 'io' else 'proc'\<close>.\<close>

definition io_or_proc :: "kind \<Rightarrow> kind" where
  "io_or_proc t = (if t = Io then Io else Proc)"

text \<open>The remaining nodes of a branch: each is added and connected to the one before.\<close>

fun branch_rest :: "node_id \<Rightarrow> c_node list \<Rightarrow> rstate \<Rightarrow> node_id \<times> rstate" where
  "branch_rest cur [] s = (cur, s)"
| "branch_rest cur (tnode # ts) s =
     (let (l, t) = label_and_kind tnode;
          (nid, s1) = add_node l (io_or_proc t) s;
          s2 = connect cur nid None s1
      in branch_rest nid ts s2)"

text \<open>
  One branch of an \<open>if\<close>: the first node hangs on the decision by the labelled edge;
  the result is the last node of the branch, or \<open>None\<close> for an empty branch.
\<close>

definition render_branch :: "node_id \<Rightarrow> string \<Rightarrow> c_node list \<Rightarrow> rstate \<Rightarrow> node_id option \<times> rstate" where
  "render_branch d_id edge_label nodes s =
     (case nodes of
        [] \<Rightarrow> (None, s)
      | first # rest \<Rightarrow>
          (let (fl, ft) = label_and_kind first;
               (first_id, s1) = add_node fl (io_or_proc ft) s;
               s2 = connect d_id first_id (Some edge_label) s1;
               (cur, s3) = branch_rest first_id rest s2
           in (Some cur, s3)))"

text \<open>
  The end of a branch goes to the target; a missing branch connects the decision itself,
  with the branch's label.
\<close>

definition close_branch :: "node_id option \<Rightarrow> node_id \<Rightarrow> string \<Rightarrow> node_id \<Rightarrow> rstate \<Rightarrow> rstate" where
  "close_branch branch_last d_id edge_label target s =
     (case branch_last of
        Some b \<Rightarrow> connect b target None s
      | None \<Rightarrow> connect d_id target (Some edge_label) s)"

text \<open>
  The \<open>while i < len(ast)\<close> loop on the nodes still to come, with the variables \<open>prev\<close>
  and \<open>last_label_added\<close>; \<open>is_last_top\<close> holds when no node follows. The two
  \<open>return\<close>s inside the loop end the recursion. The result is the finished buffer.
\<close>

fun c_loop :: "c_node list \<Rightarrow> node_id \<Rightarrow> string option \<Rightarrow> rstate \<Rightarrow> rstate" where
  "c_loop [] prev last_label_added s =
     emit (Text ''End((End))'') (connect prev End None s)"
| "c_loop (C_if cond then_nodes else_opt # rest) prev last_label_added s =
     (let (kind_label, kind_type) = label_and_kind (C_if cond then_nodes else_opt);
          (d_id, s1) = add_node kind_label Decision s;
          s2 = connect prev d_id None s1;
          else_nodes = (case else_opt of None \<Rightarrow> [] | Some e \<Rightarrow> e);
          (then_last, s3) = render_branch d_id ''Yes'' then_nodes s2;
          (else_last, s4) = render_branch d_id ''No'' else_nodes s3
      in if rest = [] then
           emit (Text ''End((End))'')
             (close_branch else_last d_id ''No'' End (close_branch then_last d_id ''Yes'' End s4))
         else
           (let (merge_id, s5) = add_node ''Merge'' Proc s4;
                s6 = close_branch then_last d_id ''Yes'' merge_id s5;
                s7 = close_branch else_last d_id ''No'' merge_id s6
            in c_loop rest merge_id last_label_added s7))"
| "c_loop (node # rest) prev last_label_added s =
     (let (label, kind_type) = label_and_kind node in
      if label = [] then c_loop rest prev last_label_added s
      else if Some label = last_label_added then c_loop rest prev last_label_added s
      else
        (let (nid, s1) = add_node label (io_or_proc kind_type) s;
             s2 = connect prev nid None s1
         in if label = ''Return'' then emit (Text ''End((End))'') (connect nid End None s2)
            else c_loop rest nid (Some label) s2))"

definition c_lines_from :: "nat \<Rightarrow> c_node list \<Rightarrow> line list" where
  "c_lines_from k ast =
     lines (c_loop ast Start None \<lparr>counter = k, lines = [Text ''graph TD'', Text ''Start((Start))'']\<rparr>)"

definition c_lines :: "c_node list \<Rightarrow> line list" where
  "c_lines ast = c_lines_from 0 ast"

fun c_id :: "node_id \<Rightarrow> string" where
  "c_id Start = ''Start''"
| "c_id End = ''End''"
| "c_id (N k) = ''N'' @ str_of_nat k"

fun c_line :: "line \<Rightarrow> string" where
  "c_line (Text t) = t"
| "c_line (Decl i sh) = c_id i @ sh"
| "c_line (Edge a None b sh) = c_id a @ '' --> '' @ c_id b @ sh"
| "c_line (Edge a (Some l) b sh) = c_id a @ '' -- '' @ l @ '' --> '' @ c_id b @ sh"

definition c_code_to_flowchart :: "c_node list \<Rightarrow> string" where
  "c_code_to_flowchart ast = join newline (map c_line (c_lines ast))"


section \<open>java\_parser.py\<close>

text \<open>
  \<open>_parse_block\<close> returns a list of dictionaries with a \<open>type\<close> key: a statement with
  its line, an if chain with its clauses and optional else block, the loops with
  condition and body, and a switch whose cases hold a label and the lines of the body.
\<close>

datatype j_node =
    J_stmt string
  | J_if_chain "(string \<times> j_node list) list" "j_node list option"
  | J_for string "j_node list"
  | J_while string "j_node list"
  | J_do_while string "j_node list"
  | J_switch string "(string \<times> string list) list"

text \<open>
  \<open>System\.out\.println\s*\((.*)\)\<close> matched at the start of the text: the group and the
  text behind the match. The dot does not match a line feed, and the greedy group ends
  at the last closing parenthesis of the line.
\<close>

definition println_at :: "string \<Rightarrow> (string \<times> string) option" where
  "println_at t =
     (if startswith t ''System.out.println'' then
        (case dropWhile isspace (drop 18 t) of
           c # r2 \<Rightarrow>
             (if c = CHR ''('' then
                (let ln = takeWhile (\<lambda>x. x \<noteq> CHR 0x0A) r2;
                     ms = filter (\<lambda>m. ln ! m = CHR '')'') [0..<length ln]
                 in if ms = [] then None
                    else Some (take (last ms) ln, drop (Suc (last ms)) r2))
              else None)
         | [] \<Rightarrow> None)
      else None)"

lemma println_at_shorter:
  assumes "println_at t = Some (g, rest)"
  shows "length rest < length t"
proof -
  have sw: "startswith t ''System.out.println''"
    using assms by (auto simp add: println_at_def split: if_splits)
  then have tl: "18 \<le> length t"
    by (auto simp add: startswith.simps elim!: startswith.elims)
  obtain c r2 where d: "dropWhile isspace (drop 18 t) = c # r2"
    using assms sw by (auto simp add: println_at_def split: if_splits list.splits)
  have "length (c # r2) \<le> length (drop 18 t)"
    unfolding d [symmetric] by (rule length_dropWhile_le)
  then have "length r2 < length t" by simp
  moreover have "length rest \<le> length r2"
    using assms sw d by (auto simp add: println_at_def Let_def split: if_splits)
  ultimately show ?thesis by simp
qed

text \<open>\<open>re.sub\<close> of that pattern by \<open>print(\1)\<close>, left to right.\<close>

function sub_println :: "string \<Rightarrow> string" where
  "sub_println [] = []"
| "sub_println (c # cs) =
     (case println_at (c # cs) of
        Some (g, rest) \<Rightarrow> ''print('' @ g @ '')'' @ sub_println rest
      | None \<Rightarrow> c # sub_println cs)"
  by pat_completeness auto
termination
  by (relation "measure length") (auto dest: println_at_shorter)

text \<open>\<open>_safe_label\<close> of the Java adapter.\<close>

definition j_safe_label :: "string \<Rightarrow> string" where
  "j_safe_label s0 =
     (let s1 = strip s0;
          s2 = sub_println s1;
          s3 = (if s2 \<noteq> [] \<and> last s2 = CHR '';'' then rstrip (butlast s2) else s2)
      in replace [CHR 0x22] [CHR 0x27] s3)"


text \<open>\<open>re.search(r'\bclass\b', s)\<close>: the word occurs with no word character on either side.\<close>

fun word_from :: "string \<Rightarrow> bool \<Rightarrow> string \<Rightarrow> bool" where
  "word_from w boundary [] = (boundary \<and> w = [])"
| "word_from w boundary (c # cs) =
     ((boundary \<and> startswith (c # cs) w \<and>
         (drop (length w) (c # cs) = [] \<or> \<not> isword (hd (drop (length w) (c # cs)))))
      \<or> word_from w (\<not> isword c) cs)"

definition has_word :: "string \<Rightarrow> string \<Rightarrow> bool" where
  "has_word w s = word_from w True s"

text \<open>
  The closure variables of \<open>parse_java_code\<close>: the counter, the node lines and the edge
  triples. An end of an edge can be \<open>None\<close>, which is what \<open>render_block\<close> returns for
  an empty block.
\<close>

record jstate =
  id_counter :: nat
  nodes :: "line list"
  edges :: "(node_id option \<times> node_id option \<times> string option) list"

definition j_new_id :: "jstate \<Rightarrow> node_id \<times> jstate" where
  "j_new_id s = (N (Suc (id_counter s)), s\<lparr>id_counter := Suc (id_counter s)\<rparr>)"

definition j_add_decl :: "string \<Rightarrow> jstate \<Rightarrow> node_id \<times> jstate" where
  "j_add_decl sh s = (let (nid, s1) = j_new_id s in (nid, s1\<lparr>nodes := nodes s1 @ [Decl nid sh]\<rparr>))"

definition add_node_rect :: "string \<Rightarrow> jstate \<Rightarrow> node_id \<times> jstate" where
  "add_node_rect label s = j_add_decl (rectangle (if strip label = [] then '' '' else label)) s"

definition add_node_diamond :: "string \<Rightarrow> jstate \<Rightarrow> node_id \<times> jstate" where
  "add_node_diamond label s = j_add_decl (diamond label) s"

definition add_node_circle :: "string \<Rightarrow> jstate \<Rightarrow> node_id \<times> jstate" where
  "add_node_circle label s = j_add_decl (''(('' @ label @ ''))'') s"

definition add_edge :: "node_id option \<Rightarrow> node_id option \<Rightarrow> string option \<Rightarrow> jstate \<Rightarrow> jstate" where
  "add_edge a b l s = s\<lparr>edges := edges s @ [(a, b, l)]\<rparr>"

text \<open>\<open>if first is None: first = x\<close> and \<open>if last is not None: edges.append((last, x, None))\<close>.\<close>

definition first_or :: "node_id option \<Rightarrow> node_id option \<Rightarrow> node_id option" where
  "first_or first x = (case first of None \<Rightarrow> x | Some f \<Rightarrow> Some f)"

definition link_last :: "node_id option \<Rightarrow> node_id option \<Rightarrow> jstate \<Rightarrow> jstate" where
  "link_last lst x s = (case lst of None \<Rightarrow> s | Some l \<Rightarrow> add_edge (Some l) x None s)"

text \<open>The text of a loop body node: the labels of its statements, \<open>...\<close> for anything else.\<close>

fun body_entry :: "j_node \<Rightarrow> string" where
  "body_entry (J_stmt code) = j_safe_label code"
| "body_entry n = ''...''"

text \<open>The case nodes of a switch, each between the switch node and the merge node.\<close>

fun render_cases :: "node_id \<Rightarrow> node_id \<Rightarrow> (string \<times> string list) list \<Rightarrow> jstate \<Rightarrow> jstate" where
  "render_cases switch_n merge_n [] s = s"
| "render_cases switch_n merge_n ((label, body) # cases) s =
     (let case_body = join newline (map j_safe_label body);
          case_label = (if case_body \<noteq> [] then label @ '':'' @ newline @ case_body else label);
          (case_n, s1) = add_node_rect case_label s;
          s2 = add_edge (Some switch_n) (Some case_n) (Some ''case'') s1;
          s3 = add_edge (Some case_n) (Some merge_n) None s2
      in render_cases switch_n merge_n cases s3)"

text \<open>
  The \<open>for stmt in block\<close> loop of \<open>render_block\<close> with its variables \<open>first\<close> and
  \<open>last\<close>, and the clause loop of \<open>render_if_chain\<close> with \<open>prev_cond_id\<close> and
  \<open>first_cond_id\<close>; the rest of \<open>render_if_chain\<close> is in the if-chain case.
\<close>

fun render_stmts :: "j_node list \<Rightarrow> node_id option \<Rightarrow> node_id option \<Rightarrow> jstate
      \<Rightarrow> node_id option \<times> node_id option \<times> jstate"
and render_clauses :: "(string \<times> j_node list) list \<Rightarrow> node_id option \<Rightarrow> node_id option \<Rightarrow> node_id
      \<Rightarrow> jstate \<Rightarrow> node_id option \<times> node_id option \<times> jstate"
where
  "render_stmts [] first lst s = (first, lst, s)"
| "render_stmts (J_stmt code # rest) first lst s =
     (let lbl = j_safe_label code in
      if has_word ''class'' lbl \<or> contains lbl ''static void main'' then render_stmts rest first lst s
      else (let (nid, s1) = add_node_rect lbl s;
                s2 = link_last lst (Some nid) s1
            in render_stmts rest (first_or first (Some nid)) (Some nid) s2))"
| "render_stmts (J_if_chain clauses else_block # rest) first lst s =
     (let (merge_id, s1) = j_add_decl ''(( ))'' s;
          (prev_cond_id, first_cond_id, s2) = render_clauses clauses None None merge_id s1;
          s3 = (case else_block of
                  Some eb \<Rightarrow>
                    (let (else_first, else_last, t1) =
                           (if eb = [] then (None, None, s2) else render_stmts eb None None s2)
                     in (case else_first of
                           Some ef \<Rightarrow> add_edge else_last (Some merge_id) None
                                        (add_edge prev_cond_id (Some ef) (Some ''False'') t1)
                         | None \<Rightarrow> add_edge prev_cond_id (Some merge_id) (Some ''False'') t1))
                | None \<Rightarrow> add_edge prev_cond_id (Some merge_id) (Some ''False'') s2);
          s4 = link_last lst first_cond_id s3
      in render_stmts rest (first_or first first_cond_id) (Some merge_id) s4)"
| "render_stmts (J_for cond body # rest) first lst s =
     (let (cond_n, s1) = add_node_diamond (''for ('' @ j_safe_label cond @ '')'') s;
          s2 = link_last lst (Some cond_n) s1;
          s3 = (if body \<noteq> [] then
                  (let (body_n, t1) = add_node_rect (join newline (map body_entry body)) s2
                   in add_edge (Some body_n) (Some cond_n) None
                        (add_edge (Some cond_n) (Some body_n) (Some ''True'') t1))
                else s2)
      in render_stmts rest (first_or first (Some cond_n)) (Some cond_n) s3)"
| "render_stmts (J_while cond body # rest) first lst s =
     (let (cond_n, s1) = add_node_diamond (''while ('' @ j_safe_label cond @ '')'') s;
          s2 = link_last lst (Some cond_n) s1;
          s3 = (if body \<noteq> [] then
                  (let (body_n, t1) = add_node_rect (join newline (map body_entry body)) s2
                   in add_edge (Some body_n) (Some cond_n) None
                        (add_edge (Some cond_n) (Some body_n) (Some ''True'') t1))
                else s2)
      in render_stmts rest (first_or first (Some cond_n)) (Some cond_n) s3)"
| "render_stmts (J_do_while cond body # rest) first lst s =
     (let (body_first, body_last, s1) =
            (if body = [] then (None, None, s) else render_stmts body None None s);
          (cond_n, s2) = add_node_diamond (''do-while ('' @ j_safe_label cond @ '')'') s1;
          s3 = link_last lst body_first s2;
          s4 = add_edge body_last (Some cond_n) None s3;
          s5 = add_edge (Some cond_n) body_first (Some ''True'') s4
      in render_stmts rest (first_or first body_first) (Some cond_n) s5)"
| "render_stmts (J_switch cond cases # rest) first lst s =
     (let (switch_n, s1) = add_node_diamond (''switch ('' @ j_safe_label cond @ '')'') s;
          s2 = link_last lst (Some switch_n) s1;
          (merge_n, s3) = j_add_decl ''(( ))'' s2;
          s4 = render_cases switch_n merge_n cases s3
      in render_stmts rest (first_or first (Some switch_n)) (Some merge_n) s4)"
| "render_clauses [] prev_cond_id first_cond_id merge_id s = (prev_cond_id, first_cond_id, s)"
| "render_clauses ((cond, then_block) # clauses) prev_cond_id first_cond_id merge_id s =
     (let (cond_id, s1) = add_node_diamond (j_safe_label cond) s;
          s2 = (case prev_cond_id of
                  Some p \<Rightarrow> add_edge (Some p) (Some cond_id) (Some ''False'') s1
                | None \<Rightarrow> s1);
          (then_first, then_last, s3) =
            (if then_block = [] then (None, None, s2) else render_stmts then_block None None s2);
          s4 = (case then_first of
                  Some tf \<Rightarrow> add_edge then_last (Some merge_id) None
                               (add_edge (Some cond_id) (Some tf) (Some ''True'') s3)
                | None \<Rightarrow> add_edge (Some cond_id) (Some merge_id) (Some ''True'') s3)
      in render_clauses clauses (Some cond_id) (first_or first_cond_id (Some cond_id)) merge_id s4)"


text \<open>\<open>render_block\<close>: the empty block gives \<open>(None, None)\<close> at once.\<close>

definition render_block :: "j_node list \<Rightarrow> jstate \<Rightarrow> node_id option \<times> node_id option \<times> jstate" where
  "render_block block s = (if block = [] then (None, None, s) else render_stmts block None None s)"

fun j_id :: "node_id option \<Rightarrow> string" where
  "j_id None = ''None''"
| "j_id (Some Start) = ''Start''"
| "j_id (Some End) = ''End''"
| "j_id (Some (N k)) = ''N'' @ str_of_nat k"

fun j_node_line :: "line \<Rightarrow> string" where
  "j_node_line (Decl i sh) = j_id (Some i) @ sh"
| "j_node_line (Text t) = t"
| "j_node_line (Edge a l b sh) = []"

fun j_edge_line :: "node_id option \<times> node_id option \<times> string option \<Rightarrow> string" where
  "j_edge_line (a, b, Some l) =
     (if l \<noteq> [] then j_id a @ '' -->|'' @ l @ ''| '' @ j_id b else j_id a @ '' --> '' @ j_id b)"
| "j_edge_line (a, b, None) = j_id a @ '' --> '' @ j_id b"

text \<open>
  The state at the end of \<open>parse_java_code\<close>, for the node list that \<open>_parse_block\<close>
  returned: the two terminals first, then the block, then the edges out of Start and
  into End.
\<close>

definition j_render :: "j_node list \<Rightarrow> jstate" where
  "j_render ast_root =
     (let s0 = \<lparr>id_counter = 0, nodes = [], edges = []\<rparr>;
          (start_id, s1) = add_node_circle ''Start'' s0;
          (end_id, s2) = add_node_circle ''End'' s1;
          (first_id, last_id, s3) = render_block ast_root s2;
          s4 = (case first_id of
                  Some f \<Rightarrow> s3\<lparr>edges := (Some start_id, Some f, None) # edges s3\<rparr>
                | None \<Rightarrow> s3\<lparr>edges := (Some start_id, Some end_id, None) # edges s3\<rparr>)
      in (case last_id of
            Some l \<Rightarrow> add_edge (Some l) (Some end_id) None s4
          | None \<Rightarrow> add_edge (Some start_id) (Some end_id) None s4))"

definition parse_java_code :: "j_node list \<Rightarrow> string" where
  "parse_java_code ast_root =
     (let s = j_render ast_root
      in join newline (''flowchart TD'' # map j_node_line (nodes s) @ map j_edge_line (edges s)))"

section \<open>parser.py\<close>

definition detect_language :: "string \<Rightarrow> string" where
  "detect_language code =
     (if contains code ''public class'' \<or> contains code ''System.out'' then ''java''
      else if contains code ''#include'' \<or> contains code ''printf'' \<or> contains code ''scanf'' then ''c''
      else ''python'')"

text \<open>
  A module is its namespace: the names bound at its top level. The dispatcher only
  calls functions from text to text, so a binding is either such a function or any
  other value. Looking up a name that the module does not bind raises
  \<open>AttributeError\<close>; calling a value that is no such function is not modelled further.
\<close>

datatype py_value = Callable "string \<Rightarrow> string" | Other_value

datatype error = AttributeError string string | NotCallable string string

definition call_attr :: "string \<Rightarrow> (string \<times> py_value) list \<Rightarrow> string \<Rightarrow> string \<Rightarrow> error + string" where
  "call_attr module_name namespace attr arg =
     (case map_of namespace attr of
        None \<Rightarrow> Inl (AttributeError module_name attr)
      | Some (Callable f) \<Rightarrow> Inr (f arg)
      | Some Other_value \<Rightarrow> Inl (NotCallable module_name attr))"

text \<open>
  The namespaces of the three adapter modules. The text-level front ends are parameters:
  \<open>java_front\<close> is \<open>_preprocess_lines\<close> followed by \<open>_parse_block\<close>, \<open>c_front\<close> is comment
  removal, the search for \<open>main\<close> and \<open>_parse_block\<close>, and \<open>ast_parse\<close> is \<open>ast.parse\<close>.
\<close>

definition java_parser :: "(string \<Rightarrow> j_node list) \<Rightarrow> (string \<times> py_value) list" where
  "java_parser java_front =
     [(''re'', Other_value),
      (''_remove_comments'', Other_value),
      (''_safe_label'', Callable j_safe_label),
      (''_preprocess_lines'', Other_value),
      (''_parse_block'', Other_value),
      (''parse_java_code'', Callable (\<lambda>code. parse_java_code (java_front code)))]"

definition c_parser :: "(string \<Rightarrow> c_node list) \<Rightarrow> (string \<times> py_value) list" where
  "c_parser c_front =
     [(''re'', Other_value),
      (''html'', Other_value),
      (''_clean_label'', Callable clean_label),
      (''_remove_comments_and_preproc'', Other_value),
      (''_read_stmt'', Other_value),
      (''_read_block'', Other_value),
      (''_parse_block'', Other_value),
      (''_extract_var_names'', Other_value),
      (''_label_and_kind'', Other_value),
      (''code_to_flowchart'', Callable (\<lambda>code. c_code_to_flowchart (c_front code))),
      (''code_to_explanation'', Other_value)]"

definition python_parser :: "(string \<Rightarrow> parse_result) \<Rightarrow> (string \<times> py_value) list" where
  "python_parser ast_parse =
     [(''ast'', Other_value),
      (''html'', Other_value),
      (''safe_label'', Callable safe_label),
      (''code_to_flowchart'', Callable (\<lambda>code. py_code_to_flowchart (ast_parse code)))]"

definition flowchart_from_input ::
  "(string \<Rightarrow> j_node list) \<Rightarrow> (string \<Rightarrow> c_node list) \<Rightarrow> (string \<Rightarrow> parse_result) \<Rightarrow> string
     \<Rightarrow> error + string" where
  "flowchart_from_input java_front c_front ast_parse code =
     (let lang = detect_language code in
      if lang = ''java'' then call_attr ''java_parser'' (java_parser java_front) ''code_to_flowchart'' code
      else if lang = ''c'' then call_attr ''c_parser'' (c_parser c_front) ''code_to_flowchart'' code
      else call_attr ''python_parser'' (python_parser ast_parse) ''code_to_flowchart'' code)"

section \<open>Notions used to state the properties\<close>








text \<open>
  The statements that \<open>render_block\<close> of the Java adapter passes over: the label holds the
  word \<open>class\<close> or the text \<open>static void main\<close>.
\<close>

definition j_skipped :: "string \<Rightarrow> bool" where
  "j_skipped lbl = (has_word ''class'' lbl \<or> contains lbl ''static void main'')"

text \<open>The labels of the statement lines that are not passed over.\<close>

definition j_kept :: "string list \<Rightarrow> string list" where
  "j_kept codes = filter (\<lambda>l. \<not> j_skipped l) (map j_safe_label codes)"

text \<open>The shape text \<open>add_node_rect\<close> writes for a label.\<close>

definition j_rect :: "string \<Rightarrow> string" where
  "j_rect l = rectangle (if strip l = [] then '' '' else l)"

text \<open>The node lines and the edges of a chain of statement nodes of the Java adapter.\<close>

fun j_nodes :: "nat \<Rightarrow> string list \<Rightarrow> line list" where
  "j_nodes k [] = []"
| "j_nodes k (l # ls) = Decl (N (Suc k)) (j_rect l) # j_nodes (Suc k) ls"

fun j_links :: "nat \<Rightarrow> node_id option \<Rightarrow> string list
      \<Rightarrow> (node_id option \<times> node_id option \<times> string option) list" where
  "j_links k lst [] = []"
| "j_links k lst (l # ls) =
     (case lst of None \<Rightarrow> [] | Some p \<Rightarrow> [(Some p, Some (N (Suc k)), None)]) @
     j_links (Suc k) (Some (N (Suc k))) ls"

section \<open>Properties\<close>

text \<open>
  C10. When the parsed statement list is empty, the Python adapter returns exactly the
  four lines \<open>graph TD\<close>, \<open>Start((Start))\<close>, \<open>Start --> End((End))\<close>, \<open>End((End))\<close>:
  the Start terminal is connected directly to End and there is no content node.
\<close>

theorem C10_empty_module:
  "py_code_to_flowchart (Module []) =
     join newline [''graph TD'', ''Start((Start))'', ''Start --> End((End))'', ''End((End))'']"
  by (simp add: py_code_to_flowchart_def py_lines_def py_lines_from_def emit_def)

subsection \<open>The main loop of the C renderer, one iteration at a time\<close>







subsection \<open>Sequences of plain statements\<close>







lemma add_node_rect_eq:
  "add_node_rect l \<lparr>id_counter = k, nodes = Ns, edges = Es\<rparr> =
     (N (Suc k), \<lparr>id_counter = Suc k, nodes = Ns @ [Decl (N (Suc k)) (j_rect l)], edges = Es\<rparr>)"
  by (simp add: add_node_rect_def j_add_decl_def j_new_id_def j_rect_def)

lemma link_last_eq:
  "link_last lst x \<lparr>id_counter = k, nodes = Ns, edges = Es\<rparr> =
     \<lparr>id_counter = k, nodes = Ns,
      edges = Es @ (case lst of None \<Rightarrow> [] | Some p \<Rightarrow> [(Some p, x, None)])\<rparr>"
  by (simp add: link_last_def add_edge_def split: option.splits)

lemma render_stmts_plain:
  "render_stmts (map J_stmt codes) first lst \<lparr>id_counter = k, nodes = Ns, edges = Es\<rparr> =
     (if first \<noteq> None \<or> j_kept codes = [] then first else Some (N (Suc k)),
      if j_kept codes = [] then lst else Some (N (k + length (j_kept codes))),
      \<lparr>id_counter = k + length (j_kept codes),
       nodes = Ns @ j_nodes k (j_kept codes),
       edges = Es @ j_links k lst (j_kept codes)\<rparr>)"
proof (induction codes arbitrary: first lst k Ns Es)
  case Nil
  show ?case by (simp add: j_kept_def)
next
  case (Cons c cs)
  show ?case
  proof (cases "j_skipped (j_safe_label c)")
    case True
    then have k: "j_kept (c # cs) = j_kept cs" by (simp add: j_kept_def)
    have "render_stmts (map J_stmt (c # cs)) first lst \<lparr>id_counter = k, nodes = Ns, edges = Es\<rparr> =
          render_stmts (map J_stmt cs) first lst \<lparr>id_counter = k, nodes = Ns, edges = Es\<rparr>"
      using True by (simp add: j_skipped_def)
    then show ?thesis
      by (simp only: k Cons.IH)
  next
    case False
    then have k: "j_kept (c # cs) = j_safe_label c # j_kept cs" by (simp add: j_kept_def)
    have ns: "\<not> (has_word ''class'' (j_safe_label c) \<or> contains (j_safe_label c) ''static void main'')"
      using False by (simp add: j_skipped_def)
    show ?thesis
      using Cons.IH [of "first_or first (Some (N (Suc k)))" "Some (N (Suc k))" "Suc k"
            "Ns @ [Decl (N (Suc k)) (j_rect (j_safe_label c))]"
            "Es @ (case lst of None \<Rightarrow> [] | Some p \<Rightarrow> [(Some p, Some (N (Suc k)), None)])"]
      using ns
      by (simp add: k add_node_rect_eq link_last_eq first_or_def split: option.splits)
  qed
qed

lemma j_render_plain:
  "nodes (j_render (map J_stmt codes)) =
     [Decl (N 1) ''((Start))'', Decl (N 2) ''((End))''] @ j_nodes 2 (j_kept codes) \<and>
   edges (j_render (map J_stmt codes)) =
     (if j_kept codes = [] then
        [(Some (N 1), Some (N 2), None), (Some (N 1), Some (N 2), None)]
      else (Some (N 1), Some (N 3), None) # j_links 2 None (j_kept codes) @
           [(Some (N (2 + length (j_kept codes))), Some (N 2), None)])"
proof (cases codes)
  case Nil
  show ?thesis unfolding Nil
    by (simp add: j_render_def render_block_def add_node_circle_def j_add_decl_def j_new_id_def
          add_edge_def j_kept_def)
next
  case (Cons c cs)
  have ne: "map J_stmt codes \<noteq> []" using Cons by simp
  have circ: "\<And>l k Ns Es. add_node_circle l \<lparr>id_counter = k, nodes = Ns, edges = Es\<rparr> =
     (N (Suc k), \<lparr>id_counter = Suc k, nodes = Ns @ [Decl (N (Suc k)) (''(('' @ l @ ''))'')], edges = Es\<rparr>)"
    by (simp add: add_node_circle_def j_add_decl_def j_new_id_def)
  show ?thesis
    using ne
    by (simp add: j_render_def render_block_def circ render_stmts_plain add_edge_def
          numeral_2_eq_2 numeral_3_eq_3)
qed




text \<open>On an empty block the Java adapter writes the edge from Start to End twice.\<close>

lemma java_empty_block:
  "edges (j_render []) = [(Some (N 1), Some (N 2), None), (Some (N 1), Some (N 2), None)]"
  using j_render_plain [of "[]"] by (simp add: j_kept_def)

subsection \<open>Duplicate suppression\<close>










subsection \<open>Return\<close>











subsection \<open>The dispatcher\<close>

text \<open>
  C1. The claim is that no entry point raises. The dispatcher \<open>flowchart_from_input\<close>
  calls \<open>java_parser.code_to_flowchart\<close>, a name that the module \<open>java_parser\<close> does not
  bind (its entry point is \<open>parse_java_code\<close>). On every input that \<open>detect_language\<close>
  takes for Java the attribute lookup raises \<open>AttributeError\<close>, whatever the front ends
  do; here for the one-line input \<open>System.out.println(1);\<close>.
\<close>

theorem C1_dispatcher_raises_on_java:
  "flowchart_from_input java_front c_front ast_parse ''System.out.println(1);'' =
     Inl (AttributeError ''java_parser'' ''code_to_flowchart'')"
  by (simp add: flowchart_from_input_def detect_language_def call_attr_def java_parser_def)

end
